theory Spec2Isabelle
  imports Complex_Main "HOL-Library.AList"
begin

section \<open>Data model (question_bank.py, session.py)\<close>

text \<open>
  Python floats are modelled as reals and Python ints as \<open>int\<close>.  A \<open>datetime\<close> is the
  number of microseconds since the first representable instant, so that the \<open>days\<close>
  attribute of a difference of two datetimes is a floor division by the number of
  microseconds in a day.  A Python \<open>dict\<close> whose iteration order the code relies on is an
  association list with unique keys in insertion order (\<open>map_of\<close> reads it,
  \<open>AList.update\<close> writes it: in place for an existing key, at the end for a new one);
  \<open>category_stats\<close>, which is built by iterating over a \<open>set\<close>, is a map.
\<close>

datatype error = KeyError | ZeroDivisionError | ValueError

type_synonym datetime = int

record question =
  qid :: int
  qcategory :: string
  qtext :: string
  options :: "(string \<times> string) list"
  correct_answer :: string

record question_state =
  difficulty :: real
  times_shown :: int
  times_correct :: int
  consecutive_wrong :: int
  last_5_attempts :: "bool list"
  time_to_answer :: "real list"
  last_seen :: "datetime option"
  mastery_level :: real
  category :: string

record cat_stats =
  total_attempts :: int
  correct_attempts :: int

record question_bank =
  questions :: "(int \<times> question) list"
  states :: "(int \<times> question_state) list"
  category_stats :: "string \<rightharpoonup> cat_stats"

text \<open>\<open>QuestionState(category=c)\<close>: the dataclass defaults.\<close>

definition QuestionState :: "string \<Rightarrow> question_state" where
  "QuestionState c =
     \<lparr>difficulty = 1, times_shown = 0, times_correct = 0, consecutive_wrong = 0,
      last_5_attempts = [], time_to_answer = [], last_seen = None,
      mastery_level = 0, category = c\<rparr>"

text \<open>
  \<open>{q['id']: q for q in questions_data['questions']}\<close>: a later question with the same
  id replaces the earlier one at the earlier one's position.
\<close>

definition questions_dict :: "question list \<Rightarrow> (int \<times> question) list" where
  "questions_dict qs = foldl (\<lambda>d q. AList.update (qid q) q d) [] qs"

definition zero_stats :: cat_stats where
  "zero_stats = \<lparr>total_attempts = 0, correct_attempts = 0\<rparr>"

definition initialize_category_stats :: "(int \<times> question) list \<Rightarrow> (string \<rightharpoonup> cat_stats)" where
  "initialize_category_stats qd = map_of (map (\<lambda>(i, q). (qcategory q, zero_stats)) qd)"

definition QuestionBank :: "question list \<Rightarrow> question_bank" where
  "QuestionBank qs =
     (let qd = questions_dict qs in
      \<lparr>questions = qd,
       states = map (\<lambda>(i, q). (i, QuestionState (qcategory q))) qd,
       category_stats = initialize_category_stats qd\<rparr>)"

section \<open>QuestionBank.update_question_state\<close>

text \<open>
  The method mutates the bank in place and may raise \<open>KeyError\<close> in the middle: the model
  returns the bank as the call leaves it together with the exception, if any.  \<open>now\<close> is
  the value of \<open>datetime.now()\<close> read by the call.
\<close>

definition push_attempt :: "bool list \<Rightarrow> bool \<Rightarrow> bool list" where
  "push_attempt l c = (let l' = l @ [c] in if length l' > 5 then tl l' else l')"

definition on_correct :: "question_state \<Rightarrow> question_state" where
  "on_correct s =
     s\<lparr>times_correct := times_correct s + 1,
       consecutive_wrong := 0,
       mastery_level := min 1 (mastery_level s + 0.1),
       difficulty := max 1 (difficulty s * 0.8)\<rparr>"

definition on_wrong :: "question_state \<Rightarrow> question_state" where
  "on_wrong s =
     (let cw = consecutive_wrong s + 1 in
      s\<lparr>consecutive_wrong := cw,
        mastery_level := max 0 (mastery_level s - 0.2),
        difficulty := difficulty s + 2 * (1 + of_int cw * 0.5)\<rparr>)"

definition basic_update :: "question_state \<Rightarrow> datetime \<Rightarrow> bool \<Rightarrow> real \<Rightarrow> question_state" where
  "basic_update s now c time_taken =
     s\<lparr>times_shown := times_shown s + 1,
       last_seen := Some now,
       time_to_answer := time_to_answer s @ [time_taken],
       last_5_attempts := push_attempt (last_5_attempts s) c\<rparr>"

definition bump_stats :: "cat_stats \<Rightarrow> bool \<Rightarrow> cat_stats" where
  "bump_stats cs c =
     (let cs1 = cs\<lparr>total_attempts := total_attempts cs + 1\<rparr>
      in if c then cs1\<lparr>correct_attempts := correct_attempts cs1 + 1\<rparr> else cs1)"

definition update_question_state ::
  "question_bank \<Rightarrow> datetime \<Rightarrow> int \<Rightarrow> bool \<Rightarrow> real \<Rightarrow> question_bank \<times> error option" where
  "update_question_state b now q c time_taken =
     (case map_of (states b) q of
        None \<Rightarrow> (b, Some KeyError)
      | Some s \<Rightarrow>
        (case map_of (questions b) q of
           None \<Rightarrow> (b, Some KeyError)
         | Some qu \<Rightarrow>
           (let cat = qcategory qu;
                s1 = basic_update s now c time_taken;
                b1 = b\<lparr>states := AList.update q s1 (states b)\<rparr>
            in case category_stats b1 cat of
                 None \<Rightarrow> (b1, Some KeyError)
               | Some cs \<Rightarrow>
                 (let b2 = b1\<lparr>category_stats := (category_stats b1)(cat \<mapsto> bump_stats cs c)\<rparr>;
                      s2 = (if c then on_correct s1 else on_wrong s1)
                  in (b2\<lparr>states := AList.update q s2 (states b2)\<rparr>, None)))))"

section \<open>Scoring (calculate_decay, calculate_pattern_score, calculate_category_difficulty)\<close>

text \<open>Exceptions propagate: the first failing step decides the result.\<close>

definition bind_err :: "error + 'a \<Rightarrow> ('a \<Rightarrow> error + 'b) \<Rightarrow> error + 'b" where
  "bind_err m f = (case m of Inl e \<Rightarrow> Inl e | Inr x \<Rightarrow> f x)"

fun map_err :: "('a \<Rightarrow> error + 'b) \<Rightarrow> 'a list \<Rightarrow> error + 'b list" where
  "map_err f [] = Inr []"
| "map_err f (x # xs) =
     bind_err (f x) (\<lambda>y. bind_err (map_err f xs) (\<lambda>ys. Inr (y # ys)))"

text \<open>\<open>d[k]\<close> on a dict: \<open>KeyError\<close> for a missing key.\<close>

definition getitem :: "('k \<times> 'v) list \<Rightarrow> 'k \<Rightarrow> error + 'v" where
  "getitem d k = (case map_of d k of None \<Rightarrow> Inl KeyError | Some v \<Rightarrow> Inr v)"

text \<open>\<open>(now - last_seen).days\<close>: a timedelta is normalised, its days are the floor.\<close>

definition days_between :: "datetime \<Rightarrow> datetime \<Rightarrow> int" where
  "days_between now t = (now - t) div 86400000000"

definition calculate_decay :: "question_bank \<Rightarrow> datetime \<Rightarrow> int \<Rightarrow> error + real" where
  "calculate_decay b now q =
     bind_err (getitem (states b) q) (\<lambda>state.
       case last_seen state of
         None \<Rightarrow> Inr 1
       | Some t \<Rightarrow>
           (let days_passed = days_between now t
            in Inr (1 - mastery_level state * (1 - exp (- of_int days_passed / 30)))))"

text \<open>\<open>xs[-n:]\<close> for positive \<open>n\<close>, and \<open>sum\<close> of a list of booleans.\<close>

definition last_n :: "nat \<Rightarrow> 'a list \<Rightarrow> 'a list" where
  "last_n n xs = drop (length xs - n) xs"

definition count_true :: "bool list \<Rightarrow> nat" where
  "count_true bs = length (filter (\<lambda>x. x) bs)"

definition pattern_step :: "question_state \<Rightarrow> real \<Rightarrow> real" where
  "pattern_step state score =
     (if 5 \<le> length (last_5_attempts state) then
        (let recent_performance = last_n 5 (last_5_attempts state);
             early_correct = count_true (take 3 recent_performance);
             late_correct = count_true (drop 3 recent_performance)
         in if early_correct > late_correct then score * 1.5
            else if early_correct < late_correct then score * 0.8
            else score)
      else score)"

definition speed_step :: "question_state \<Rightarrow> real \<Rightarrow> real" where
  "speed_step state score =
     (if time_to_answer state \<noteq> [] then
        (let recent_times = last_n 5 (time_to_answer state);
             avg_time = sum_list recent_times / of_nat (length recent_times);
             speed_factor = min 2 (avg_time / 5)
         in score * speed_factor)
      else score)"

definition calculate_pattern_score :: "question_bank \<Rightarrow> datetime \<Rightarrow> int \<Rightarrow> error + real" where
  "calculate_pattern_score b now q =
     bind_err (getitem (states b) q) (\<lambda>state.
       (let score = speed_step state (pattern_step state (difficulty state))
        in bind_err (calculate_decay b now q) (\<lambda>decay. Inr (score * decay))))"


definition speed_factor :: "real list \<Rightarrow> real" where
  "speed_factor ts =
     (if ts = [] then 1
      else min 2 (sum_list (last_n 5 ts) / of_nat (length (last_n 5 ts)) / 5))"

definition calculate_category_difficulty :: "question_bank \<Rightarrow> string \<Rightarrow> error + real" where
  "calculate_category_difficulty b cat =
     (let cat_questions = map fst (filter (\<lambda>(i, q). qcategory q = cat) (questions b))
      in if cat_questions = [] then Inr 1
         else bind_err (map_err (\<lambda>i. bind_err (getitem (states b) i) (\<lambda>s. Inr (difficulty s)))
                          cat_questions)
                (\<lambda>ds. Inr (sum_list ds / of_nat (length cat_questions))))"

section \<open>Selection (select_questions)\<close>

text \<open>
  The \<open>random\<close> module is a source of natural numbers, consumed one per draw; a source
  that has run out keeps giving 0, so every finite list stands for one run of the
  generator.  \<open>random.sample(pop, k)\<close> draws \<open>k\<close> positions of \<open>pop\<close> without replacement
  and raises \<open>ValueError\<close> for a negative or too large \<open>k\<close>; \<open>random.choice\<close> draws one
  position; \<open>random.shuffle\<close> draws all of them.  Every outcome of the library functions
  is the outcome of some source.
\<close>

type_synonym rng = "nat list"

definition next_random :: "rng \<Rightarrow> nat \<times> rng" where
  "next_random r = (case r of [] \<Rightarrow> (0, []) | x # r' \<Rightarrow> (x, r'))"

definition remove_nth :: "nat \<Rightarrow> 'a list \<Rightarrow> 'a list" where
  "remove_nth i xs = take i xs @ drop (Suc i) xs"

fun draw :: "'a list \<Rightarrow> nat \<Rightarrow> rng \<Rightarrow> 'a list \<times> rng" where
  "draw pop 0 r = ([], r)"
| "draw pop (Suc k) r =
     (if pop = [] then ([], r)
      else (let i = fst (next_random r) mod length pop;
                rest = draw (remove_nth i pop) k (snd (next_random r))
            in (pop ! i # fst rest, snd rest)))"

definition random_sample :: "'a list \<Rightarrow> int \<Rightarrow> rng \<Rightarrow> error + ('a list \<times> rng)" where
  "random_sample pop k r =
     (if k < 0 \<or> int (length pop) < k then Inl ValueError else Inr (draw pop (nat k) r))"

definition random_shuffle :: "'a list \<Rightarrow> rng \<Rightarrow> 'a list \<times> rng" where
  "random_shuffle xs r = draw xs (length xs) r"

text \<open>\<open>int(x)\<close> of a float truncates towards zero; \<open>xs[:k]\<close> counts a negative \<open>k\<close> from the end.\<close>

definition int_trunc :: "real \<Rightarrow> int" where
  "int_trunc x = (if 0 \<le> x then \<lfloor>x\<rfloor> else \<lceil>x\<rceil>)"

definition slice_to :: "int \<Rightarrow> 'a list \<Rightarrow> 'a list" where
  "slice_to k xs = (if 0 \<le> k then take (nat k) xs else take (length xs - nat (- k)) xs)"

text \<open>
  Lines 85 to 91: the score of one question.  \<open>clock i\<close> is the reading of
  \<open>datetime.now()\<close> while question \<open>i\<close> is scored.
\<close>

definition score_question ::
  "question_bank \<Rightarrow> (int \<Rightarrow> datetime) \<Rightarrow> int \<times> question \<Rightarrow> error + (int \<times> real)" where
  "score_question b clock e =
     (case e of (i, q) \<Rightarrow>
        bind_err (calculate_pattern_score b (clock i) i) (\<lambda>pattern_score.
        bind_err (calculate_category_difficulty b (qcategory q)) (\<lambda>cat_difficulty.
          Inr (i, pattern_score * 0.7 + cat_difficulty * 0.3))))"

text \<open>Line 97: the ids whose state has never been shown.\<close>

definition untested_ids :: "question_bank \<Rightarrow> error + int list" where
  "untested_ids b =
     bind_err (map_err (\<lambda>i. bind_err (getitem (states b) i) (\<lambda>s. Inr (i, times_shown s = 0)))
                 (map fst (questions b)))
       (\<lambda>flags. Inr (map fst (filter snd flags)))"

text \<open>
  Lines 107 to 111: the loop that fills the remaining slots.  A list made from a set has
  no order of its own: the model lists the remaining keys in the order of the dict, and
  the draw picks any of them.
\<close>

function fill_remaining :: "int list \<Rightarrow> int \<Rightarrow> int list \<Rightarrow> rng \<Rightarrow> int list \<times> rng" where
  "fill_remaining keys adjusted_n selected r =
     (if int (length selected) < adjusted_n then
        (let remaining = filter (\<lambda>k. k \<notin> set selected) (remdups keys)
         in if remaining = [] then (selected, r)
            else fill_remaining keys adjusted_n
                   (selected @ [remaining ! (fst (next_random r) mod length remaining)])
                   (snd (next_random r)))
      else (selected, r))"
  by pat_completeness auto
termination
proof (relation "measure (\<lambda>(keys, n, selected, r). card (set keys - set selected))")
  show "wf (measure (\<lambda>(keys, n, selected, r). card (set keys - set selected)))"
    by simp
next
  fix keys :: "int list" and adjusted_n :: int and selected :: "int list" and r :: rng
    and remaining :: "int list"
  assume rem: "remaining = filter (\<lambda>k. k \<notin> set selected) (remdups keys)"
    and ne: "remaining \<noteq> []"
  define x where "x = remaining ! (fst (next_random r) mod length remaining)"
  have "x \<in> set remaining"
    unfolding x_def using ne by simp
  then have x: "x \<in> set keys" "x \<notin> set selected"
    using rem by auto
  have "set keys - set (selected @ [x]) \<subset> set keys - set selected"
    using x by auto
  then have "card (set keys - set (selected @ [x])) < card (set keys - set selected)"
    by (intro psubset_card_mono) auto
  then show "((keys, adjusted_n, selected @ [remaining ! (fst (next_random r) mod length remaining)],
               snd (next_random r)),
              (keys, adjusted_n, selected, r))
             \<in> measure (\<lambda>(keys, n, selected, r). card (set keys - set selected))"
    by (simp add: x_def)
qed

declare fill_remaining.simps [simp del]

definition select_questions ::
  "question_bank \<Rightarrow> (int \<Rightarrow> datetime) \<Rightarrow> int \<Rightarrow> rng \<Rightarrow> error + int list" where
  "select_questions b clock n r =
     (let sts = map snd (states b) in
      if sts = [] then Inl ZeroDivisionError
      else
        (let avg_difficulty = sum_list (map difficulty sts) / of_nat (length sts);
             fatigue_factor =
               of_nat (length (filter (\<lambda>s. difficulty s > 3) sts)) / of_nat (length sts);
             adjusted_n = int_trunc (of_int n * (1 - fatigue_factor * 0.3))
         in bind_err (map_err (score_question b clock) (questions b)) (\<lambda>question_scores.
            let ranked = sort_key (\<lambda>x. - snd x) question_scores;
                high_priority = map fst (slice_to (int_trunc (of_int adjusted_n * 0.6)) ranked)
            in bind_err (untested_ids b) (\<lambda>untested.
               let keys = map fst (questions b);
                   random_pool =
                     filter (\<lambda>k. k \<notin> set high_priority \<and> k \<notin> set untested) (remdups keys)
               in bind_err (random_sample high_priority
                              (min (int (length high_priority)) (int_trunc (of_int adjusted_n * 0.6)))
                              r) (\<lambda>s1.
                  bind_err (random_sample untested
                              (min (int (length untested)) (int_trunc (of_int adjusted_n * 0.3)))
                              (snd s1)) (\<lambda>s2.
                  bind_err (random_sample random_pool
                              (min (int (length random_pool)) (int_trunc (of_int adjusted_n * 0.1)))
                              (snd s2)) (\<lambda>s3.
                    let filled = fill_remaining keys adjusted_n (fst s1 @ fst s2 @ fst s3) (snd s3);
                        shuffled = random_shuffle (fst filled) (snd filled)
                    in Inr (slice_to adjusted_n (fst shuffled)))))))))"

section \<open>Snapshots (export_state, import_state)\<close>

text \<open>
  A snapshot is the dict that \<open>export_state\<close> builds and that \<open>import_state\<close> reads, in
  memory or parsed from JSON.  A key that may be missing is an \<open>option\<close> (\<open>None\<close>: the key
  is absent); the JSON value of \<open>last_seen\<close> is \<open>null\<close> (\<open>Some None\<close>) or a string.  The key
  of a state is an int as exported, a string once it went through JSON.

  Three functions of the Python library are parameters of the model: \<open>int(s)\<close> on a
  string, \<open>datetime.isoformat\<close> and \<open>datetime.fromisoformat\<close> (\<open>None\<close>: the call raises
  \<open>ValueError\<close>).
\<close>

datatype key = IntKey int | StrKey string

record state_dict =
  sd_difficulty :: "real option"
  sd_times_shown :: "int option"
  sd_times_correct :: "int option"
  sd_consecutive_wrong :: "int option"
  sd_last_5_attempts :: "bool list option"
  sd_mastery_level :: "real option"
  sd_last_seen :: "string option option"

record snapshot =
  snap_states :: "(key \<times> state_dict) list option"
  snap_category_stats :: "(string \<rightharpoonup> cat_stats) option"
  snap_timestamp :: "string option"

record pylib =
  int_of_str :: "string \<Rightarrow> int option"
  isoformat :: "datetime \<Rightarrow> string"
  fromisoformat :: "string \<Rightarrow> datetime option"

definition export_entry :: "pylib \<Rightarrow> int \<times> question_state \<Rightarrow> key \<times> state_dict" where
  "export_entry lib e =
     (case e of (i, state) \<Rightarrow>
        (IntKey i,
         \<lparr>sd_difficulty = Some (difficulty state),
          sd_times_shown = Some (times_shown state),
          sd_times_correct = Some (times_correct state),
          sd_consecutive_wrong = Some (consecutive_wrong state),
          sd_last_5_attempts = Some (last_5_attempts state),
          sd_mastery_level = Some (mastery_level state),
          sd_last_seen = Some (map_option (isoformat lib) (last_seen state))\<rparr>))"

definition export_state :: "pylib \<Rightarrow> question_bank \<Rightarrow> datetime \<Rightarrow> snapshot" where
  "export_state lib b now =
     \<lparr>snap_states = Some (map (export_entry lib) (states b)),
      snap_category_stats = Some (category_stats b),
      snap_timestamp = Some (isoformat lib now)\<rparr>"

text \<open>\<open>int(qid)\<close> at line 179.\<close>

definition int_of_key :: "pylib \<Rightarrow> key \<Rightarrow> error + int" where
  "int_of_key lib k =
     (case k of
        IntKey i \<Rightarrow> Inr i
      | StrKey s \<Rightarrow> (case int_of_str lib s of None \<Rightarrow> Inl ValueError | Some i \<Rightarrow> Inr i))"

text \<open>
  \<open>bank.states[qid].f = state_dict['f']\<close>: the right-hand side is read first, then the
  state is looked up; either may raise \<open>KeyError\<close>.
\<close>

definition assign_field ::
  "question_bank \<Rightarrow> int \<Rightarrow> 'a option \<Rightarrow> ('a \<Rightarrow> question_state \<Rightarrow> question_state)
     \<Rightarrow> error + question_bank" where
  "assign_field bank i field set_f =
     (case field of
        None \<Rightarrow> Inl KeyError
      | Some v \<Rightarrow>
          bind_err (getitem (states bank) i) (\<lambda>state.
            Inr (bank\<lparr>states := AList.update i (set_f v state) (states bank)\<rparr>)))"

definition import_entry :: "pylib \<Rightarrow> question_bank \<Rightarrow> key \<times> state_dict \<Rightarrow> error + question_bank" where
  "import_entry lib bank e =
     (case e of (k, state_dict) \<Rightarrow>
        bind_err (int_of_key lib k) (\<lambda>i.
        bind_err (assign_field bank i (sd_difficulty state_dict)
                    (\<lambda>v s. s\<lparr>difficulty := v\<rparr>)) (\<lambda>bank.
        bind_err (assign_field bank i (sd_times_shown state_dict)
                    (\<lambda>v s. s\<lparr>times_shown := v\<rparr>)) (\<lambda>bank.
        bind_err (assign_field bank i (sd_times_correct state_dict)
                    (\<lambda>v s. s\<lparr>times_correct := v\<rparr>)) (\<lambda>bank.
        bind_err (assign_field bank i (sd_consecutive_wrong state_dict)
                    (\<lambda>v s. s\<lparr>consecutive_wrong := v\<rparr>)) (\<lambda>bank.
        bind_err (assign_field bank i (sd_last_5_attempts state_dict)
                    (\<lambda>v s. s\<lparr>last_5_attempts := v\<rparr>)) (\<lambda>bank.
        bind_err (assign_field bank i (sd_mastery_level state_dict)
                    (\<lambda>v s. s\<lparr>mastery_level := v\<rparr>)) (\<lambda>bank.
          case sd_last_seen state_dict of
            None \<Rightarrow> Inl KeyError
          | Some None \<Rightarrow> Inr bank
          | Some (Some str) \<Rightarrow>
              if str = [] then Inr bank
              else (case fromisoformat lib str of
                      None \<Rightarrow> Inl ValueError
                    | Some t \<Rightarrow> assign_field bank i (Some t) (\<lambda>v s. s\<lparr>last_seen := Some v\<rparr>))))))))))"

fun import_entries ::
  "pylib \<Rightarrow> question_bank \<Rightarrow> (key \<times> state_dict) list \<Rightarrow> error + question_bank" where
  "import_entries lib bank [] = Inr bank"
| "import_entries lib bank (e # es) =
     bind_err (import_entry lib bank e) (\<lambda>bank'. import_entries lib bank' es)"

definition import_state :: "pylib \<Rightarrow> question list \<Rightarrow> snapshot \<Rightarrow> error + question_bank" where
  "import_state lib questions_data state_data =
     (let bank = QuestionBank questions_data in
      case snap_states state_data of
        None \<Rightarrow> Inl KeyError
      | Some entries \<Rightarrow>
          bind_err (import_entries lib bank entries) (\<lambda>bank.
            Inr (bank\<lparr>category_stats :=
                   (case snap_category_stats state_data of
                      None \<Rightarrow> initialize_category_stats (questions bank)
                    | Some cs \<Rightarrow> cs)\<rparr>)))"

section \<open>QuizSession (session.py)\<close>

text \<open>
  \<open>QuizSession.skipped\<close> is the field \<open>skipped_questions\<close>; \<open>skipped\<close> is the counter of
  \<open>SessionStats\<close>.  The readings of \<open>time.time()\<close> are arguments.
\<close>

record session_stats =
  correct :: int
  wrong :: int
  skipped :: int
  streak :: int
  best_streak :: int
  start_time :: real
  question_start_time :: real
  times_per_category :: "(string \<times> real list) list"

record quiz_session =
  bank :: question_bank
  current_round :: "int list"
  skipped_questions :: "int list"
  stats :: session_stats

definition record_time :: "(string \<times> real list) list \<Rightarrow> string \<Rightarrow> real \<Rightarrow> (string \<times> real list) list" where
  "record_time tpc cat time_taken =
     (case map_of tpc cat of
        None \<Rightarrow> AList.update cat [time_taken] tpc
      | Some ts \<Rightarrow> AList.update cat (ts @ [time_taken]) tpc)"

definition tally :: "session_stats \<Rightarrow> bool \<Rightarrow> session_stats" where
  "tally st c =
     (if c then st\<lparr>correct := correct st + 1,
                  streak := streak st + 1,
                  best_streak := max (best_streak st) (streak st + 1)\<rparr>
      else st\<lparr>wrong := wrong st + 1, streak := 0\<rparr>)"

text \<open>
  \<open>handle_answer\<close>: \<open>t_read\<close> is \<open>time.time()\<close> at line 35, \<open>now\<close> is \<open>datetime.now()\<close>
  inside \<open>update_question_state\<close>, \<open>t_reset\<close> is \<open>time.time()\<close> at line 55.  The session
  is returned as the call leaves it, with the exception if one was raised.
\<close>

definition handle_answer ::
  "quiz_session \<Rightarrow> bool \<Rightarrow> real \<Rightarrow> datetime \<Rightarrow> real \<Rightarrow> quiz_session \<times> error option" where
  "handle_answer s c t_read now t_reset =
     (case current_round s of
        [] \<Rightarrow> (s, None)
      | q # rest \<Rightarrow>
          (let time_taken = t_read - question_start_time (stats s);
               upd = update_question_state (bank s) now q c time_taken;
               s1 = s\<lparr>current_round := rest, bank := fst upd\<rparr>
           in case snd upd of
                Some e \<Rightarrow> (s1, Some e)
              | None \<Rightarrow>
                  (case map_of (questions (bank s1)) q of
                     None \<Rightarrow> (s1, Some KeyError)
                   | Some qu \<Rightarrow>
                       (let st1 = (stats s1)\<lparr>times_per_category :=
                                     record_time (times_per_category (stats s1)) (qcategory qu) time_taken\<rparr>;
                            st2 = tally st1 c
                        in (s1\<lparr>stats := st2\<lparr>question_start_time := t_reset\<rparr>\<rparr>, None)))))"

definition handle_skip :: "quiz_session \<Rightarrow> real \<Rightarrow> quiz_session" where
  "handle_skip s t_reset =
     (case current_round s of
        [] \<Rightarrow> s
      | q # rest \<Rightarrow>
          s\<lparr>current_round := rest,
            skipped_questions := skipped_questions s @ [q],
            stats := (stats s)\<lparr>skipped := skipped (stats s) + 1,
                               question_start_time := t_reset\<rparr>\<rparr>)"

definition is_round_complete :: "quiz_session \<Rightarrow> bool" where
  "is_round_complete s \<longleftrightarrow> current_round s = [] \<and> skipped_questions s = []"

section \<open>The invariant of a bank\<close>

text \<open>
  What the constructor establishes and \<open>update_question_state\<close> keeps, for a bank built from
  the question set \<open>qs\<close>: the questions are those of \<open>qs\<close>, the states have the ids of the
  questions in the same order, and every state carries the category of its question.
\<close>

definition bank_of :: "question list \<Rightarrow> question_bank \<Rightarrow> bool" where
  "bank_of qs b \<longleftrightarrow>
     questions b = questions_dict qs \<and>
     map fst (states b) = map fst (questions b) \<and>
     (\<forall>(i, s)\<in>set (states b). map_option qcategory (map_of (questions b) i) = Some (category s))"

text \<open>
  The state that lines 180 to 187 leave for an entry written by \<open>export_state\<close> from the
  state \<open>s\<close>, when the bank held \<open>s0\<close> under that id.
\<close>

definition restore_state :: "question_state \<Rightarrow> question_state \<Rightarrow> question_state" where
  "restore_state s0 s =
     s0\<lparr>difficulty := difficulty s,
        times_shown := times_shown s,
        times_correct := times_correct s,
        consecutive_wrong := consecutive_wrong s,
        last_5_attempts := last_5_attempts s,
        mastery_level := mastery_level s,
        last_seen := (case last_seen s of None \<Rightarrow> last_seen s0 | Some t \<Rightarrow> Some t)\<rparr>"

text \<open>
  The ranges of the data model that the constructor establishes and that
  \<open>update_question_state\<close> keeps when the time taken is not negative.
\<close>

definition state_ok :: "question_state \<Rightarrow> bool" where
  "state_ok s \<longleftrightarrow>
     1 \<le> difficulty s \<and> 0 \<le> consecutive_wrong s \<and>
     0 \<le> mastery_level s \<and> mastery_level s \<le> 1 \<and>
     (\<forall>x\<in>set (time_to_answer s). 0 \<le> x)"

section \<open>Sample data\<close>

text \<open>A small question set, one question per category and a second one in category A.\<close>

definition mk_question :: "int \<Rightarrow> string \<Rightarrow> question" where
  "mk_question i c =
     \<lparr>qid = i, qcategory = c, qtext = ''q'', options = [(''a'', ''x''), (''b'', ''y'')],
      correct_answer = ''a''\<rparr>"

definition sample_questions :: "question list" where
  "sample_questions =
     [mk_question 1 ''A'', mk_question 2 ''B'', mk_question 3 ''C'', mk_question 4 ''A'']"

definition sample_session :: "int list \<Rightarrow> int list \<Rightarrow> quiz_session" where
  "sample_session pending deferred =
     \<lparr>bank = QuestionBank sample_questions, current_round = pending,
      skipped_questions = deferred,
      stats = \<lparr>correct = 0, wrong = 0, skipped = 0, streak = 0, best_streak = 0, start_time = 0,
               question_start_time = 0, times_per_category = []\<rparr>\<rparr>"

text \<open>
  The sample bank after question 1 was answered five times at instant 0, in 2 seconds each:
  four times correctly, then wrongly.
\<close>

definition practised_bank :: question_bank where
  "practised_bank =
     foldl (\<lambda>b c. fst (update_question_state b 0 1 c 2)) (QuestionBank sample_questions)
       [True, True, True, True, False]"

text \<open>
  A stand-in for the three library functions, for concrete runs: it reads the id strings of
  the sample questions, and it writes an instant as a mark followed by one dot per
  microsecond, which it reads back; it rejects every other string, the empty one included.
\<close>

definition sample_lib :: pylib where
  "sample_lib =
     \<lparr>int_of_str = (\<lambda>s. if s = ''1'' then Some 1 else if s = ''2'' then Some 2
                        else if s = ''3'' then Some 3 else if s = ''4'' then Some 4 else None),
      isoformat = (\<lambda>d. if 0 \<le> d then CHR ''T'' # replicate (nat d) CHR ''.''
                       else CHR ''-'' # replicate (nat (- d)) CHR ''.''),
      fromisoformat = (\<lambda>s. case s of
                          [] \<Rightarrow> None
                        | c # cs \<Rightarrow>
                            if cs \<noteq> replicate (length cs) CHR ''.'' then None
                            else if c = CHR ''T'' then Some (int (length cs))
                            else if c = CHR ''-'' \<and> cs \<noteq> [] then Some (- int (length cs))
                            else None)\<rparr>"

text \<open>The entry that \<open>export_state\<close> writes for a state that was never updated.\<close>

definition fresh_dict :: state_dict where
  "fresh_dict =
     \<lparr>sd_difficulty = Some 1, sd_times_shown = Some 0, sd_times_correct = Some 0,
      sd_consecutive_wrong = Some 0, sd_last_5_attempts = Some [], sd_mastery_level = Some 0,
      sd_last_seen = Some None\<rparr>"

lemmas sample_defs = mk_question_def sample_questions_def QuestionBank_def questions_dict_def
  initialize_category_stats_def QuestionState_def zero_stats_def sample_session_def

section \<open>Facts about dicts\<close>

lemma push_attempt_eq:
  "push_attempt l c = (if 5 \<le> length l then drop 1 l @ [c] else l @ [c])"
  by (cases l) (auto simp: push_attempt_def Let_def drop_Suc)

lemma map_of_update_same: "map_of (AList.update k v al) k = Some v"
  by (simp add: update_conv')

lemma map_of_update_other: "k' \<noteq> k \<Longrightarrow> map_of (AList.update k v al) k' = map_of al k'"
  by (simp add: update_conv')

lemma keys_update_present:
  "map_of al k = Some w \<Longrightarrow> map fst (AList.update k v al) = map fst al"
  by (simp add: update_keys map_of_eq_None_iff[symmetric] del: map_of_eq_None_iff)

lemma in_set_updateD:
  "(i, s) \<in> set (AList.update k v al) \<Longrightarrow> (i, s) = (k, v) \<or> (i, s) \<in> set al"
  by (induction al) (auto split: if_splits)

section \<open>update_question_state: effect and frame\<close>

text \<open>
  Claim C6.  For a question that has a state, a definition and category statistics,
  \<open>update_question_state q c t\<close> raises nothing; the new state of \<open>q\<close> has \<open>times_shown\<close>
  incremented, \<open>last_seen\<close> set to now, \<open>t\<close> appended to the response times, \<open>c\<close> appended
  to \<open>last_5_attempts\<close> with the oldest entry dropped once the list held five; on a
  correct answer \<open>times_correct\<close> is incremented, \<open>consecutive_wrong\<close> is 0, the mastery
  is \<open>min 1 (m + 0.1)\<close> and the difficulty \<open>max 1 (d * 0.8)\<close>; on a wrong answer
  \<open>consecutive_wrong\<close> is incremented, the mastery is \<open>max 0 (m - 0.2)\<close> and the
  difficulty grows by \<open>2 * (1 + cw * 0.5)\<close> with the incremented \<open>cw\<close>; the category's
  \<open>total_attempts\<close> is incremented, and \<open>correct_attempts\<close> too on a correct answer.  A
  fresh question answered wrongly three times in a row ends with difficulty 13.
\<close>

theorem update_question_state_effect:
  assumes "map_of (states b) q = Some s"
    and "map_of (questions b) q = Some qu"
    and "category_stats b (qcategory qu) = Some cs"
  shows "snd (update_question_state b now q c t) = None \<and>
    map_of (states (fst (update_question_state b now q c t))) q = Some
      \<lparr>difficulty = (if c then max 1 (difficulty s * 0.8)
                     else difficulty s + 2 * (1 + of_int (consecutive_wrong s + 1) * 0.5)),
       times_shown = times_shown s + 1,
       times_correct = (if c then times_correct s + 1 else times_correct s),
       consecutive_wrong = (if c then 0 else consecutive_wrong s + 1),
       last_5_attempts = (if 5 \<le> length (last_5_attempts s)
                          then drop 1 (last_5_attempts s) @ [c] else last_5_attempts s @ [c]),
       time_to_answer = time_to_answer s @ [t],
       last_seen = Some now,
       mastery_level = (if c then min 1 (mastery_level s + 0.1)
                        else max 0 (mastery_level s - 0.2)),
       category = category s\<rparr> \<and>
    category_stats (fst (update_question_state b now q c t)) (qcategory qu) = Some
      \<lparr>total_attempts = total_attempts cs + 1,
       correct_attempts = (if c then correct_attempts cs + 1 else correct_attempts cs)\<rparr> \<and>
    map_option difficulty (map_of (states (fst (update_question_state
        (fst (update_question_state
           (fst (update_question_state (QuestionBank [qu']) n1 (qid qu') False t1))
            n2 (qid qu') False t2)) n3 (qid qu') False t3))) (qid qu')) = Some 13"
  using assms
  by (simp add: update_question_state_def Let_def map_of_update_same basic_update_def
      on_correct_def on_wrong_def bump_stats_def push_attempt_eq
      QuestionBank_def questions_dict_def initialize_category_stats_def QuestionState_def)

theorem update_question_state_effect_witness:
  "map_of (states (QuestionBank sample_questions)) 1 = Some (QuestionState ''A'') \<and>
   map_of (questions (QuestionBank sample_questions)) 1 = Some (mk_question 1 ''A'') \<and>
   category_stats (QuestionBank sample_questions) (qcategory (mk_question 1 ''A''))
     = Some zero_stats \<and>
   snd (update_question_state (QuestionBank sample_questions) 0 1 True 2) = None \<and>
   map_option times_shown
     (map_of (states (fst (update_question_state (QuestionBank sample_questions) 0 1 True 2))) 1)
     = Some 1 \<and>
   map_option difficulty
     (map_of (states (fst (update_question_state (QuestionBank sample_questions) 0 1 True 2))) 1)
     = Some 1"
proof -
  have h1: "map_of (states (QuestionBank sample_questions)) 1 = Some (QuestionState ''A'')"
    by (simp add: sample_defs)
  have h2: "map_of (questions (QuestionBank sample_questions)) 1 = Some (mk_question 1 ''A'')"
    by (simp add: sample_defs)
  have h3: "category_stats (QuestionBank sample_questions) (qcategory (mk_question 1 ''A''))
      = Some zero_stats"
    by (simp add: sample_defs)
  show ?thesis
    using h1 h2 h3 update_question_state_effect [OF h1 h2 h3, of 0 True 2]
    by (simp add: QuestionState_def)
qed

text \<open>
  Claim C10.  Whatever the arguments, and whether or not the call raises,
  \<open>update_question_state q c t\<close> leaves the question definitions and the keys of the
  states as they were, leaves the state of every other question as it was, and leaves the
  statistics of every category other than the category of \<open>q\<close> as they were.
\<close>

theorem update_question_state_frame:
  "questions (fst (update_question_state b now q c t)) = questions b \<and>
   map fst (states (fst (update_question_state b now q c t))) = map fst (states b) \<and>
   (\<forall>q'. q' \<noteq> q \<longrightarrow>
      map_of (states (fst (update_question_state b now q c t))) q' = map_of (states b) q') \<and>
   (\<forall>cat. (\<forall>qu. map_of (questions b) q = Some qu \<longrightarrow> cat \<noteq> qcategory qu) \<longrightarrow>
      category_stats (fst (update_question_state b now q c t)) cat = category_stats b cat)"
  by (auto simp: update_question_state_def Let_def map_of_update_other keys_update_present
      map_of_update_same split: option.splits)

theorem update_question_state_frame_witness:
  "map_of (questions (QuestionBank sample_questions)) 1 = Some (mk_question 1 ''A'') \<and>
   map_of (states (fst (update_question_state (QuestionBank sample_questions) 0 1 False 2))) 2
     = Some (QuestionState ''B'') \<and>
   category_stats (fst (update_question_state (QuestionBank sample_questions) 0 1 False 2)) ''B''
     = Some zero_stats \<and>
   questions (fst (update_question_state (QuestionBank sample_questions) 0 1 False 2))
     = questions (QuestionBank sample_questions)"
proof -
  have q1: "map_of (questions (QuestionBank sample_questions)) 1 = Some (mk_question 1 ''A'')"
    by (simp add: sample_defs)
  have s2: "map_of (states (QuestionBank sample_questions)) 2 = Some (QuestionState ''B'')"
    by (simp add: sample_defs)
  have c2: "category_stats (QuestionBank sample_questions) ''B'' = Some zero_stats"
    by (simp add: sample_defs)
  show ?thesis
    using q1 s2 c2
      update_question_state_frame [of "QuestionBank sample_questions" 0 1 False 2]
    by (simp add: mk_question_def)
qed

section \<open>The session: skipping, and calls with nothing pending\<close>

text \<open>
  Claim C7.  With a pending question, \<open>handle_skip\<close> removes the head of the pending list
  and appends it to the skipped list, adds one to the skip counter, restarts the question
  timer, and changes nothing else: the bank (every state and all category statistics) and
  every other field of the statistics are as before.  So five pending ids and no skipped
  one become four pending and one skipped.
\<close>

theorem handle_skip_effect:
  assumes "current_round s = q # rest"
  shows "current_round (handle_skip s t) = rest \<and>
    skipped_questions (handle_skip s t) = skipped_questions s @ [q] \<and>
    length (current_round (handle_skip s t)) + 1 = length (current_round s) \<and>
    length (skipped_questions (handle_skip s t)) = length (skipped_questions s) + 1 \<and>
    bank (handle_skip s t) = bank s \<and>
    skipped (stats (handle_skip s t)) = skipped (stats s) + 1 \<and>
    question_start_time (stats (handle_skip s t)) = t \<and>
    correct (stats (handle_skip s t)) = correct (stats s) \<and>
    wrong (stats (handle_skip s t)) = wrong (stats s) \<and>
    streak (stats (handle_skip s t)) = streak (stats s) \<and>
    best_streak (stats (handle_skip s t)) = best_streak (stats s) \<and>
    start_time (stats (handle_skip s t)) = start_time (stats s) \<and>
    times_per_category (stats (handle_skip s t)) = times_per_category (stats s)"
  using assms by (simp add: handle_skip_def)

theorem handle_skip_effect_witness:
  "current_round (sample_session [3, 1, 4, 2, 1] []) = 3 # [1, 4, 2, 1] \<and>
   current_round (handle_skip (sample_session [3, 1, 4, 2, 1] []) 7) = [1, 4, 2, 1] \<and>
   skipped_questions (handle_skip (sample_session [3, 1, 4, 2, 1] []) 7) = [3] \<and>
   length (current_round (handle_skip (sample_session [3, 1, 4, 2, 1] []) 7)) = 4 \<and>
   length (skipped_questions (handle_skip (sample_session [3, 1, 4, 2, 1] []) 7)) = 1 \<and>
   bank (handle_skip (sample_session [3, 1, 4, 2, 1] []) 7) = QuestionBank sample_questions \<and>
   skipped (stats (handle_skip (sample_session [3, 1, 4, 2, 1] []) 7)) = 1"
proof -
  have h: "current_round (sample_session [3, 1, 4, 2, 1] []) = 3 # [1, 4, 2, 1]"
    by (simp add: sample_session_def)
  show ?thesis
    using h handle_skip_effect [OF h, of 7]
    by (simp add: sample_session_def)
qed

text \<open>
  Claim C8.  With nothing pending, also when skipped questions wait for review,
  \<open>handle_answer\<close> and \<open>handle_skip\<close> raise nothing and return the session as it was, the
  bank included.
\<close>

theorem nothing_pending_noop:
  assumes "current_round s = []"
  shows "handle_answer s c t_read now t_reset = (s, None) \<and> handle_skip s t = s"
  using assms by (simp add: handle_answer_def handle_skip_def)

theorem nothing_pending_noop_witness:
  "current_round (sample_session [] [2, 3]) = [] \<and>
   handle_answer (sample_session [] [2, 3]) True 5 0 6 = (sample_session [] [2, 3], None) \<and>
   handle_skip (sample_session [] [2, 3]) 5 = sample_session [] [2, 3]"
proof -
  have h: "current_round (sample_session [] [2, 3]) = []"
    by (simp add: sample_session_def)
  show ?thesis
    using h nothing_pending_noop [OF h, of True 5 0 6 5]
    by simp
qed

section \<open>Scoring: decay and pattern score\<close>


lemma practised_states:
  "states practised_bank =
     [(1, \<lparr>difficulty = 4, times_shown = 5, times_correct = 4, consecutive_wrong = 1,
           last_5_attempts = [True, True, True, True, False], time_to_answer = [2, 2, 2, 2, 2],
           last_seen = Some 0, mastery_level = 0.2, category = ''A''\<rparr>),
      (2, QuestionState ''B''), (3, QuestionState ''C''), (4, QuestionState ''A'')]"
  by (simp add: practised_bank_def sample_defs update_question_state_def Let_def
      basic_update_def on_correct_def on_wrong_def bump_stats_def push_attempt_def)









lemma calculate_decay_returns:
  assumes "map_of (states b) q = Some s"
  shows "\<exists>d. calculate_decay b now q = Inr d"
  using assms by (simp add: calculate_decay_def bind_err_def getitem_def split: option.split)


text \<open>
  The ranges assumed below hold in every bank that the constructor built and that was
  changed by \<open>update_question_state\<close> with times that are not negative.
\<close>

lemma state_ok_fresh: "state_ok (QuestionState c)"
  by (simp add: state_ok_def QuestionState_def)

lemma state_ok_basic_update: "state_ok s \<Longrightarrow> 0 \<le> t \<Longrightarrow> state_ok (basic_update s now c t)"
  by (auto simp: state_ok_def basic_update_def)

lemma state_ok_on_correct: "state_ok s \<Longrightarrow> state_ok (on_correct s)"
  by (auto simp: state_ok_def on_correct_def)

lemma state_ok_on_wrong: "state_ok s \<Longrightarrow> state_ok (on_wrong s)"
proof -
  assume ok: "state_ok s"
  then have "0 \<le> (of_int (consecutive_wrong s + 1) :: real)"
    by (simp add: state_ok_def)
  then have "0 \<le> 2 * (1 + (of_int (consecutive_wrong s + 1) :: real) * 0.5)"
    by simp
  then show ?thesis
    using ok by (auto simp: state_ok_def on_wrong_def Let_def)
qed

lemma update_question_state_states:
  assumes "(i, s') \<in> set (states (fst (update_question_state b now q c t)))"
  shows "(i, s') \<in> set (states b) \<or>
    (\<exists>s. (q, s) \<in> set (states b) \<and>
       s' \<in> {basic_update s now c t, on_correct (basic_update s now c t),
              on_wrong (basic_update s now c t)})"
proof (cases "map_of (states b) q")
  case None
  then show ?thesis
    using assms by (simp add: update_question_state_def)
next
  case (Some s)
  then have "(q, s) \<in> set (states b)"
    by (rule map_of_SomeD)
  then show ?thesis
    using assms Some
    by (auto simp: update_question_state_def Let_def split: option.splits if_splits
        dest!: in_set_updateD)
qed

lemma states_ok_update:
  assumes "\<forall>(i, s)\<in>set (states b). state_ok s" and "0 \<le> t"
  shows "\<forall>(i, s)\<in>set (states (fst (update_question_state b now q c t))). state_ok s"
proof (clarify)
  fix i s' assume "(i, s') \<in> set (states (fst (update_question_state b now q c t)))"
  then consider "(i, s') \<in> set (states b)"
    | s where "(q, s) \<in> set (states b)"
        "s' \<in> {basic_update s now c t, on_correct (basic_update s now c t),
              on_wrong (basic_update s now c t)}"
    using update_question_state_states by blast
  then show "state_ok s'"
  proof cases
    case 1
    then show ?thesis using assms(1) by auto
  next
    case 2
    then have "state_ok (basic_update s now c t)"
      using assms by (auto intro: state_ok_basic_update)
    then show ?thesis
      using 2(2) by (auto intro: state_ok_on_correct state_ok_on_wrong)
  qed
qed

lemma states_ok_fresh: "\<forall>(i, s)\<in>set (states (QuestionBank qs)). state_ok s"
  by (auto simp: QuestionBank_def Let_def state_ok_fresh)





section \<open>Selection: what select_questions returns\<close>

text \<open>
  One run of \<open>select_questions\<close> on a bank with at least one state, step by step: each
  hypothesis is one line of the method, so that a run on a concrete bank is checked one
  line at a time.
\<close>

lemma select_questions_run:
  assumes "map snd (states b) \<noteq> []"
    and "adjusted_n = int_trunc (of_int n * (1 - of_nat (length (filter (\<lambda>s. difficulty s > 3) (map snd (states b)))) / of_nat (length (map snd (states b))) * 0.3))"
    and "map_err (score_question b clock) (questions b) = Inr question_scores"
    and "high_priority = map fst (slice_to (int_trunc (of_int adjusted_n * 0.6)) (sort_key (\<lambda>x. - snd x) question_scores))"
    and "untested_ids b = Inr untested"
    and "random_pool = filter (\<lambda>k. k \<notin> set high_priority \<and> k \<notin> set untested) (remdups (map fst (questions b)))"
    and "random_sample high_priority (min (int (length high_priority)) (int_trunc (of_int adjusted_n * 0.6))) r = Inr s1"
    and "random_sample untested (min (int (length untested)) (int_trunc (of_int adjusted_n * 0.3))) (snd s1) = Inr s2"
    and "random_sample random_pool (min (int (length random_pool)) (int_trunc (of_int adjusted_n * 0.1))) (snd s2) = Inr s3"
    and "filled = fill_remaining (map fst (questions b)) adjusted_n (fst s1 @ fst s2 @ fst s3) (snd s3)"
    and "shuffled = random_shuffle (fst filled) (snd filled)"
  shows "select_questions b clock n r = Inr (slice_to adjusted_n (fst shuffled))"
  using assms(1,3,5,7,8,9)
  unfolding select_questions_def Let_def assms(2,4,6,10,11) bind_err_def
  by simp

lemma draw_one: "draw [x] (Suc 0) r = ([x], snd (next_random r))"
  by (simp add: remove_nth_def Let_def)

lemma draw_twice_same:
  "draw [x, x] (Suc (Suc 0)) r = ([x, x], snd (next_random (snd (next_random r))))"
proof -
  define i where "i = fst (next_random r) mod Suc (Suc 0)"
  have "i < Suc (Suc 0)"
    unfolding i_def by (rule mod_less_divisor) simp
  then have "i = 0 \<or> i = Suc 0"
    by arith
  then have "[x, x] ! i = x \<and> remove_nth i [x, x] = [x]"
    by (auto simp: remove_nth_def)
  then show ?thesis
    by (simp add: Let_def i_def [symmetric] draw_one)
qed

lemma one_bank:
  "questions (QuestionBank [mk_question 1 ''A'']) = [(1, mk_question 1 ''A'')]"
  "states (QuestionBank [mk_question 1 ''A'']) = [(1, QuestionState ''A'')]"
  by (simp_all add: QuestionBank_def questions_dict_def Let_def mk_question_def)

lemma one_scores:
  "map_err (score_question (QuestionBank [mk_question 1 ''A'']) clock)
     (questions (QuestionBank [mk_question 1 ''A''])) = Inr [(1, 1)]"
  by (simp add: QuestionBank_def questions_dict_def Let_def score_question_def bind_err_def
      calculate_pattern_score_def getitem_def calculate_decay_def
      calculate_category_difficulty_def pattern_step_def speed_step_def QuestionState_def
      mk_question_def)

lemma one_untested: "untested_ids (QuestionBank [mk_question 1 ''A'']) = Inr [1]"
  by (simp add: one_bank untested_ids_def bind_err_def getitem_def QuestionState_def)

lemma fill_full: "fill_remaining [1] 4 [1, 1] r = ([1, 1], r)"
  by (simp add: fill_remaining.simps)

text \<open>
  Claim C2.  The claim: for every bank and every \<open>n \<ge> 0\<close>, \<open>select_questions n\<close> returns at
  most \<open>n\<close> ids, no id twice, all of them ids of the bank.  The code returns an id twice:
  on a fresh bank with the single question 1, \<open>select_questions 4\<close> returns \<open>[1, 1]\<close>, whatever
  the clock reads and whatever the random draws are.  Question 1 is the only high-priority
  id and the only untested id; line 97 builds \<open>untested\<close> without removing the
  high-priority ids, so line 102 draws it a second time.
\<close>

theorem select_questions_duplicate:
  "select_questions (QuestionBank [mk_question 1 ''A'']) clock 4 r = Inr [1, 1]"
proof -
  let ?b = "QuestionBank [mk_question 1 ''A'']"
  let ?r1 = "snd (next_random r)"
  let ?r2 = "snd (next_random ?r1)"
  have adj: "(4::int) = int_trunc (of_int 4 * (1 - of_nat (length (filter (\<lambda>s. difficulty s > 3)
        (map snd (states ?b)))) / of_nat (length (map snd (states ?b))) * 0.3))"
    by (simp add: one_bank QuestionState_def int_trunc_def)
  have hp: "[1::int] = map fst (slice_to (int_trunc (of_int 4 * 0.6))
        (sort_key (\<lambda>x. - snd x) [(1::int, 1::real)]))"
    by (simp add: int_trunc_def slice_to_def)
  have pool: "([]::int list) = filter (\<lambda>k. k \<notin> set [1] \<and> k \<notin> set [1])
        (remdups (map fst (questions ?b)))"
    by (simp add: one_bank)
  have s1: "random_sample [1::int] (min (int (length [1::int])) (int_trunc (of_int 4 * 0.6))) r
      = Inr ([1], ?r1)"
    by (simp add: int_trunc_def random_sample_def draw_one)
  have s2: "random_sample [1::int] (min (int (length [1::int])) (int_trunc (of_int 4 * 0.3)))
      (snd ([1::int], ?r1)) = Inr ([1], ?r2)"
    by (simp add: int_trunc_def random_sample_def draw_one)
  have s3: "random_sample ([]::int list) (min (int (length ([]::int list)))
      (int_trunc (of_int 4 * 0.1))) (snd ([1::int], ?r2)) = Inr ([], ?r2)"
    by (simp add: int_trunc_def random_sample_def)
  have fill: "([1, 1], ?r2) = fill_remaining (map fst (questions ?b)) 4
      (fst ([1::int], ?r1) @ fst ([1::int], ?r2) @ fst ([]::int list, ?r2)) (snd ([]::int list, ?r2))"
    by (simp add: one_bank fill_full)
  have "select_questions ?b clock 4 r
      = Inr (slice_to 4 (fst (random_shuffle (fst ([1::int, 1], ?r2)) (snd ([1::int, 1], ?r2)))))"
    by (rule select_questions_run [OF _ adj one_scores hp one_untested pool s1 s2 s3 fill refl])
      (simp add: one_bank)
  then show ?thesis
    by (simp add: random_shuffle_def draw_twice_same slice_to_def del: draw.simps)
qed

text \<open>
  On a bank with at least one question where every question has a state, a target count
  of 0 after the fatigue adjustment gives the empty selection and no error.
\<close>

lemma map_err_total:
  assumes "\<forall>x\<in>set xs. \<exists>y. f x = Inr y"
  shows "\<exists>ys. map_err f xs = Inr ys"
  using assms by (induction xs) (auto simp: bind_err_def)

lemma getitem_present:
  assumes "i \<in> set (map fst d)"
  shows "\<exists>v. getitem d i = Inr v \<and> map_of d i = Some v"
proof -
  have "map_of d i \<noteq> None"
    using assms by (simp add: map_of_eq_None_iff)
  then show ?thesis
    by (auto simp: getitem_def)
qed

lemma calculate_pattern_score_returns:
  assumes "i \<in> set (map fst (states b))"
  shows "\<exists>x. calculate_pattern_score b now i = Inr x"
proof -
  obtain s where s: "getitem (states b) i = Inr s" "map_of (states b) i = Some s"
    using getitem_present [OF assms] by blast
  obtain d where "calculate_decay b now i = Inr d"
    using calculate_decay_returns [OF s(2)] by blast
  then show ?thesis
    using s(1) by (simp add: calculate_pattern_score_def bind_err_def Let_def)
qed

lemma calculate_category_difficulty_returns:
  assumes "set (map fst (questions b)) \<subseteq> set (map fst (states b))"
  shows "\<exists>x. calculate_category_difficulty b cat = Inr x"
proof -
  let ?ids = "map fst (filter (\<lambda>(i, q). qcategory q = cat) (questions b))"
  have "\<forall>i\<in>set ?ids. \<exists>y. bind_err (getitem (states b) i) (\<lambda>s. Inr (difficulty s)) = Inr y"
  proof
    fix i assume "i \<in> set ?ids"
    then have "i \<in> set (map fst (questions b))"
      by auto
    then have "i \<in> set (map fst (states b))"
      using assms by blast
    then obtain s where "getitem (states b) i = Inr s"
      using getitem_present [of i "states b"] by blast
    then show "\<exists>y. bind_err (getitem (states b) i) (\<lambda>s. Inr (difficulty s)) = Inr y"
      by (simp add: bind_err_def)
  qed
  then have "\<exists>ds. map_err (\<lambda>i. bind_err (getitem (states b) i) (\<lambda>s. Inr (difficulty s))) ?ids
      = Inr ds"
    by (rule map_err_total)
  then obtain ds where
    ds: "map_err (\<lambda>i. bind_err (getitem (states b) i) (\<lambda>s. Inr (difficulty s))) ?ids = Inr ds"
    by blast
  show ?thesis
    unfolding calculate_category_difficulty_def Let_def ds
    by (simp add: bind_err_def)
qed

lemma scores_returned:
  assumes "set (map fst (questions b)) \<subseteq> set (map fst (states b))"
  shows "\<exists>scores. map_err (score_question b clock) (questions b) = Inr scores"
proof (rule map_err_total, rule ballI)
  fix e assume e: "e \<in> set (questions b)"
  obtain i q where iq: "e = (i, q)"
    by (cases e)
  have "i \<in> set (map fst (questions b))"
    using e iq by force
  then have "i \<in> set (map fst (states b))"
    using assms by blast
  then obtain x where x: "calculate_pattern_score b (clock i) i = Inr x"
    using calculate_pattern_score_returns [of i b "clock i"] by blast
  obtain y where y: "calculate_category_difficulty b (qcategory q) = Inr y"
    using calculate_category_difficulty_returns [OF assms, of "qcategory q"] by blast
  show "\<exists>y. score_question b clock e = Inr y"
    by (simp add: score_question_def iq x y bind_err_def)
qed

lemma untested_returned:
  assumes "set (map fst (questions b)) \<subseteq> set (map fst (states b))"
  shows "\<exists>untested. untested_ids b = Inr untested"
proof -
  have "\<forall>i\<in>set (map fst (questions b)).
      \<exists>y. bind_err (getitem (states b) i) (\<lambda>s. Inr (i, times_shown s = 0)) = Inr y"
  proof
    fix i assume "i \<in> set (map fst (questions b))"
    then have "i \<in> set (map fst (states b))"
      using assms by blast
    then obtain s where "getitem (states b) i = Inr s"
      using getitem_present [of i "states b"] by blast
    then show "\<exists>y. bind_err (getitem (states b) i) (\<lambda>s. Inr (i, times_shown s = 0)) = Inr y"
      by (simp add: bind_err_def)
  qed
  then have "\<exists>flags. map_err (\<lambda>i. bind_err (getitem (states b) i) (\<lambda>s. Inr (i, times_shown s = 0)))
       (map fst (questions b)) = Inr flags"
    by (rule map_err_total)
  then obtain flags where
    fl: "map_err (\<lambda>i. bind_err (getitem (states b) i) (\<lambda>s. Inr (i, times_shown s = 0)))
       (map fst (questions b)) = Inr flags"
    by blast
  show ?thesis
    unfolding untested_ids_def fl by (simp add: bind_err_def)
qed

lemma random_sample_none: "random_sample pop (min (int (length pop)) 0) r = Inr ([], r)"
  by (simp add: random_sample_def)

lemma fill_remaining_none: "fill_remaining keys 0 [] r = ([], r)"
  by (subst fill_remaining.simps) simp

lemma select_questions_none:
  assumes "states b \<noteq> []"
    and "set (map fst (questions b)) \<subseteq> set (map fst (states b))"
    and "int_trunc (of_int n * (1 - of_nat (length (filter (\<lambda>s. difficulty s > 3)
           (map snd (states b)))) / of_nat (length (map snd (states b))) * 0.3)) = 0"
  shows "select_questions b clock n r = Inr []"
proof -
  obtain scores where sc: "map_err (score_question b clock) (questions b) = Inr scores"
    using scores_returned [OF assms(2)] by blast
  obtain untested where un: "untested_ids b = Inr untested"
    using untested_returned [OF assms(2)] by blast
  define hp where "hp = map fst (slice_to (int_trunc (of_int 0 * 0.6))
      (sort_key (\<lambda>x. - snd x) scores))"
  define pool where "pool = filter (\<lambda>k. k \<notin> set hp \<and> k \<notin> set untested)
      (remdups (map fst (questions b)))"
  have z: "int_trunc (of_int 0 * 0.6) = 0" "int_trunc (of_int 0 * 0.3) = 0"
    "int_trunc (of_int 0 * 0.1) = 0"
    by (simp_all add: int_trunc_def)
  have s1: "random_sample hp (min (int (length hp)) (int_trunc (of_int 0 * 0.6))) r = Inr ([], r)"
    unfolding z by (rule random_sample_none)
  have s2: "random_sample untested (min (int (length untested)) (int_trunc (of_int 0 * 0.3)))
      (snd ([]::int list, r)) = Inr ([], r)"
    unfolding z snd_conv by (rule random_sample_none)
  have s3: "random_sample pool (min (int (length pool)) (int_trunc (of_int 0 * 0.1)))
      (snd ([]::int list, r)) = Inr ([], r)"
    unfolding z snd_conv by (rule random_sample_none)
  have fill: "([], r) = fill_remaining (map fst (questions b)) 0
      (fst ([]::int list, r) @ fst ([]::int list, r) @ fst ([]::int list, r)) (snd ([]::int list, r))"
    by (simp add: fill_remaining_none)
  have "select_questions b clock n r =
      Inr (slice_to 0 (fst (random_shuffle (fst ([]::int list, r)) (snd ([]::int list, r)))))"
    by (rule select_questions_run [OF _ assms(3) [symmetric] sc hp_def un pool_def s1 s2 s3 fill refl])
      (simp add: assms(1))
  then show ?thesis
    by (simp add: random_shuffle_def slice_to_def)
qed

lemma select_questions_zero:
  assumes "bank_of qs b" and "states b \<noteq> []"
  shows "select_questions b clock 0 r = Inr []"
  using assms(2)
proof (rule select_questions_none)
  show "set (map fst (questions b)) \<subseteq> set (map fst (states b))"
    using assms(1) by (simp add: bank_of_def)
  show "int_trunc (of_int 0 * (1 - of_nat (length (filter (\<lambda>s. difficulty s > 3)
           (map snd (states b)))) / of_nat (length (map snd (states b))) * 0.3)) = 0"
    by (simp add: int_trunc_def)
qed

text \<open>
  Claim C3.  The claim: \<open>select_questions\<close> returns an empty sequence and raises nothing on
  a bank without questions.  The code raises: on the bank built from an empty question
  set, \<open>select_questions n\<close> ends with \<open>ZeroDivisionError\<close> for every \<open>n\<close>, at the division by
  \<open>len(self.states)\<close> of line 79.
\<close>

theorem select_questions_empty_bank:
  "select_questions (QuestionBank []) clock n r = Inl ZeroDivisionError"
  by (simp add: select_questions_def QuestionBank_def questions_dict_def)

section \<open>Snapshots: what import_state rejects\<close>

lemma import_entries_raises:
  assumes "e \<in> set es" and "\<And>bk. isl (import_entry lib bk e)"
  shows "isl (import_entries lib bk es)"
  using assms(1)
proof (induction es arbitrary: bk)
  case Nil
  then show ?case by simp
next
  case (Cons x es)
  show ?case
  proof (cases "import_entry lib bk x")
    case (Inl err)
    then show ?thesis by (simp add: bind_err_def)
  next
    case (Inr bk')
    with assms(2) [of bk] have "x \<noteq> e" by auto
    with Cons.prems have "e \<in> set es" by simp
    then show ?thesis
      using Inr Cons.IH by (simp add: bind_err_def)
  qed
qed

lemma import_entry_bad_id:
  "int_of_str lib str = None \<Longrightarrow> isl (import_entry lib bk (StrKey str, e))"
  by (simp add: import_entry_def int_of_key_def bind_err_def)

lemma import_entry_bad_time:
  assumes "sd_last_seen e = Some (Some str)" and "str \<noteq> []" and "fromisoformat lib str = None"
  shows "isl (import_entry lib bk (k, e))"
  using assms by (simp add: import_entry_def bind_err_def split: sum.splits)

lemma import_state_raises_entry:
  assumes "snap_states sd = Some entries" and "e \<in> set entries"
    and "\<And>bk. isl (import_entry lib bk e)"
  shows "isl (import_state lib qs sd)"
proof -
  have "isl (import_entries lib (QuestionBank qs) entries)"
    using assms(2,3) by (rule import_entries_raises)
  then show ?thesis
    using assms(1) by (auto simp: import_state_def bind_err_def Let_def split: sum.splits)
qed

text \<open>
  Claim C9, amended.  \<open>import_state\<close> raises \<open>KeyError\<close> when the snapshot has no \<open>states\<close>
  key; it raises when an id of \<open>states\<close> is a string that \<open>int\<close> rejects; it raises when a
  \<open>last_seen\<close> is a non-empty string that \<open>fromisoformat\<close> rejects.  A missing
  \<open>category_stats\<close> key is no error: the import of a snapshot without that key raises exactly
  when the import of the same snapshot with the key raises, and otherwise returns the same
  bank with freshly initialised category statistics.
\<close>

theorem import_state_raises:
  "(snap_states sd = None \<longrightarrow> import_state lib qs sd = Inl KeyError) \<and>
   (\<forall>entries str e. snap_states sd = Some entries \<and> (StrKey str, e) \<in> set entries \<and>
        int_of_str lib str = None \<longrightarrow> isl (import_state lib qs sd)) \<and>
   (\<forall>entries k e str. snap_states sd = Some entries \<and> (k, e) \<in> set entries \<and>
        sd_last_seen e = Some (Some str) \<and> str \<noteq> [] \<and> fromisoformat lib str = None
          \<longrightarrow> isl (import_state lib qs sd)) \<and>
   import_state lib qs (sd\<lparr>snap_category_stats := None\<rparr>) =
     map_sum id (\<lambda>b. b\<lparr>category_stats := initialize_category_stats (questions b)\<rparr>)
       (import_state lib qs sd)"
proof (intro conjI allI impI)
  show "import_state lib qs sd = Inl KeyError" if "snap_states sd = None"
    using that by (simp add: import_state_def)
next
  fix entries str e
  assume "snap_states sd = Some entries \<and> (StrKey str, e) \<in> set entries \<and>
      int_of_str lib str = None"
  then show "isl (import_state lib qs sd)"
    using import_state_raises_entry [of sd entries "(StrKey str, e)" lib qs]
    by (simp add: import_entry_bad_id)
next
  fix entries k e str
  assume "snap_states sd = Some entries \<and> (k, e) \<in> set entries \<and>
      sd_last_seen e = Some (Some str) \<and> str \<noteq> [] \<and> fromisoformat lib str = None"
  then show "isl (import_state lib qs sd)"
    using import_state_raises_entry [of sd entries "(k, e)" lib qs]
    by (simp add: import_entry_bad_time)
next
  show "import_state lib qs (sd\<lparr>snap_category_stats := None\<rparr>) =
     map_sum id (\<lambda>b. b\<lparr>category_stats := initialize_category_stats (questions b)\<rparr>)
       (import_state lib qs sd)"
    by (simp add: import_state_def bind_err_def Let_def split: option.splits sum.splits)
qed

theorem import_state_raises_witness:
  "import_state sample_lib sample_questions
     \<lparr>snap_states = None, snap_category_stats = Some Map.empty, snap_timestamp = Some ''T''\<rparr>
     = Inl KeyError \<and>
   isl (import_state sample_lib sample_questions
     \<lparr>snap_states = Some [(StrKey ''1'', fresh_dict), (StrKey ''one'', fresh_dict)],
      snap_category_stats = Some Map.empty, snap_timestamp = Some ''T''\<rparr>) \<and>
   isl (import_state sample_lib sample_questions
     \<lparr>snap_states = Some [(IntKey 1, fresh_dict\<lparr>sd_last_seen := Some (Some ''yesterday'')\<rparr>)],
      snap_category_stats = Some Map.empty, snap_timestamp = Some ''T''\<rparr>)"
proof -
  let ?a = "\<lparr>snap_states = None, snap_category_stats = Some Map.empty,
      snap_timestamp = Some ''T''\<rparr>"
  let ?eb = "[(StrKey ''1'', fresh_dict), (StrKey ''one'', fresh_dict)]"
  let ?b = "\<lparr>snap_states = Some ?eb, snap_category_stats = Some Map.empty,
      snap_timestamp = Some ''T''\<rparr>"
  let ?dc = "fresh_dict\<lparr>sd_last_seen := Some (Some ''yesterday'')\<rparr>"
  let ?c = "\<lparr>snap_states = Some [(IntKey 1, ?dc)], snap_category_stats = Some Map.empty,
      snap_timestamp = Some ''T''\<rparr>"
  have a: "import_state sample_lib sample_questions ?a = Inl KeyError"
    using import_state_raises [of ?a sample_lib sample_questions, THEN conjunct1] by simp
  have b: "isl (import_state sample_lib sample_questions ?b)"
    using import_state_raises [of ?b sample_lib sample_questions, THEN conjunct2, THEN conjunct1,
        rule_format, of ?eb "''one''" fresh_dict]
    by (simp add: sample_lib_def)
  have c: "isl (import_state sample_lib sample_questions ?c)"
    using import_state_raises [of ?c sample_lib sample_questions, THEN conjunct2, THEN conjunct2,
        THEN conjunct1, rule_format, of "[(IntKey 1, ?dc)]" "IntKey 1" ?dc "''yesterday''"]
    by (simp add: sample_lib_def)
  show ?thesis
    using a b c by blast
qed

text \<open>
  The claim as written fails: a snapshot without \<open>category_stats\<close> is imported and gives the
  fresh bank, and so is one whose \<open>last_seen\<close> is the empty string, which \<open>fromisoformat\<close>
  rejects.
\<close>

theorem import_state_silent:
  "import_state sample_lib sample_questions
     \<lparr>snap_states = Some [(StrKey ''1'', fresh_dict)], snap_category_stats = None,
      snap_timestamp = Some ''T''\<rparr> = Inr (QuestionBank sample_questions) \<and>
   fromisoformat sample_lib '''' = None \<and>
   import_state sample_lib sample_questions
     \<lparr>snap_states = Some [(StrKey ''1'', fresh_dict\<lparr>sd_last_seen := Some (Some '''')\<rparr>)],
      snap_category_stats = None, snap_timestamp = Some ''T''\<rparr>
     = Inr (QuestionBank sample_questions)"
  by (simp add: import_state_def import_entry_def assign_field_def int_of_key_def bind_err_def
      getitem_def fresh_dict_def sample_lib_def sample_defs Let_def)

section \<open>Snapshots: export followed by import\<close>

lemma distinct_foldl_update:
  "distinct (map fst d) \<Longrightarrow>
     distinct (map fst (foldl (\<lambda>d q. AList.update (f q) q d) d qs))"
  by (induction qs arbitrary: d) (simp_all add: distinct_update)

lemma distinct_questions_dict: "distinct (map fst (questions_dict qs))"
  unfolding questions_dict_def by (rule distinct_foldl_update) simp

lemma alist_eqI:
  assumes "map fst xs = map fst ys" and "distinct (map fst xs)"
    and "\<forall>k\<in>set (map fst xs). map_of xs k = map_of ys k"
  shows "xs = ys"
  using assms
proof (induction xs arbitrary: ys)
  case Nil
  then show ?case by simp
next
  case (Cons x xs)
  then obtain y ys' where ys: "ys = y # ys'"
    by (cases ys) auto
  have k: "fst x = fst y" and ks: "map fst xs = map fst ys'"
    using Cons.prems(1) ys by simp_all
  have "fst x \<in> set (map fst (x # xs))"
    by simp
  then have "map_of (x # xs) (fst x) = map_of (y # ys') (fst x)"
    using Cons.prems(3) [rule_format, of "fst x"] ys by blast
  then have v: "snd x = snd y"
    using k by simp
  have "\<forall>k\<in>set (map fst xs). map_of xs k = map_of ys' k"
  proof
    fix j assume j: "j \<in> set (map fst xs)"
    then have "j \<noteq> fst x"
      using Cons.prems(2) by force
    moreover have "j \<in> set (map fst (x # xs))"
      using j by simp
    then have "map_of (x # xs) j = map_of (y # ys') j"
      using Cons.prems(3) [rule_format, of j] ys by blast
    ultimately show "map_of xs j = map_of ys' j"
      using k by (cases x, cases y) simp
  qed
  then have "xs = ys'"
    using Cons.IH [OF ks] Cons.prems(2) by simp
  then show ?case
    using ys k v by (simp add: prod_eq_iff)
qed

lemma import_entry_export:
  assumes "\<forall>d. fromisoformat lib (isoformat lib d) = Some d" and "\<forall>d. isoformat lib d \<noteq> []"
    and "map_of (states bk) i = Some s0"
  shows "import_entry lib bk (export_entry lib (i, s)) =
    Inr (bk\<lparr>states := AList.update i (restore_state s0 s) (states bk)\<rparr>)"
proof (cases "last_seen s")
  case None
  then show ?thesis
    using assms(3)
    by (simp add: import_entry_def export_entry_def assign_field_def int_of_key_def bind_err_def
        getitem_def map_of_update_same restore_state_def)
next
  case (Some t)
  then show ?thesis
    using assms
    by (simp add: import_entry_def export_entry_def assign_field_def int_of_key_def bind_err_def
        getitem_def map_of_update_same restore_state_def)
qed

lemma import_entries_export:
  assumes "\<forall>d. fromisoformat lib (isoformat lib d) = Some d" and "\<forall>d. isoformat lib d \<noteq> []"
  shows "distinct (map fst es) \<Longrightarrow> set (map fst es) \<subseteq> set (map fst (states bk)) \<Longrightarrow>
    \<exists>al. import_entries lib bk (map (export_entry lib) es) = Inr (bk\<lparr>states := al\<rparr>) \<and>
      map fst al = map fst (states bk) \<and>
      (\<forall>i. map_of al i =
         (case map_of es i of
            None \<Rightarrow> map_of (states bk) i
          | Some s \<Rightarrow> map_option (\<lambda>s0. restore_state s0 s) (map_of (states bk) i)))"
proof (induction es arbitrary: bk)
  case Nil
  show ?case
    by (rule exI [of _ "states bk"]) simp
next
  case (Cons e es)
  obtain i s where e: "e = (i, s)"
    by (cases e)
  have "i \<in> set (map fst (states bk))"
    using Cons.prems(2) e by simp
  then obtain s0 where s0: "map_of (states bk) i = Some s0"
    by (metis map_of_eq_None_iff not_None_eq set_map)
  let ?bk1 = "bk\<lparr>states := AList.update i (restore_state s0 s) (states bk)\<rparr>"
  have step: "import_entry lib bk (export_entry lib e) = Inr ?bk1"
    unfolding e using assms s0 by (rule import_entry_export)
  have keys1: "map fst (states ?bk1) = map fst (states bk)"
    using s0 by (simp add: keys_update_present)
  have d: "distinct (map fst es)" and fresh: "map_of es i = None"
    using Cons.prems(1) e by (auto simp: map_of_eq_None_iff)
  have sub: "set (map fst es) \<subseteq> set (map fst (states ?bk1))"
    using Cons.prems(2) keys1 by simp
  obtain al where al: "import_entries lib ?bk1 (map (export_entry lib) es) = Inr (?bk1\<lparr>states := al\<rparr>)"
    and alk: "map fst al = map fst (states ?bk1)"
    and alv: "\<forall>j. map_of al j =
         (case map_of es j of
            None \<Rightarrow> map_of (states ?bk1) j
          | Some s' \<Rightarrow> map_option (\<lambda>s0. restore_state s0 s') (map_of (states ?bk1) j))"
    using Cons.IH [OF d sub] by blast
  have "import_entries lib bk (map (export_entry lib) (e # es)) = Inr (bk\<lparr>states := al\<rparr>)"
    using step al by (simp add: bind_err_def)
  moreover have "map fst al = map fst (states bk)"
    using alk keys1 by simp
  moreover have "\<forall>j. map_of al j =
         (case map_of (e # es) j of
            None \<Rightarrow> map_of (states bk) j
          | Some s' \<Rightarrow> map_option (\<lambda>s0. restore_state s0 s') (map_of (states bk) j))"
  proof
    fix j
    show "map_of al j =
         (case map_of (e # es) j of
            None \<Rightarrow> map_of (states bk) j
          | Some s' \<Rightarrow> map_option (\<lambda>s0. restore_state s0 s') (map_of (states bk) j))"
    proof (cases "j = i")
      case True
      then show ?thesis
        using alv [rule_format, of j] fresh s0 e by (simp add: map_of_update_same)
    next
      case False
      then show ?thesis
        using alv [rule_format, of j] e by (simp add: map_of_update_other split: option.splits)
    qed
  qed
  ultimately show ?case
    by blast
qed

lemma restore_fresh: "restore_state (QuestionState (category s)) s = s\<lparr>time_to_answer := []\<rparr>"
  by (cases s) (simp add: restore_state_def QuestionState_def split: option.split)

lemma bank_of_fresh: "bank_of qs (QuestionBank qs)"
proof -
  have "map_of (questions_dict qs) i = Some qu" if "(i, qu) \<in> set (questions_dict qs)" for i qu
    using that distinct_questions_dict by (rule_tac map_of_is_SomeI) auto
  then show ?thesis
    by (auto simp: bank_of_def QuestionBank_def Let_def QuestionState_def comp_def
        case_prod_unfold)
qed

lemma bank_of_states_update:
  assumes "bank_of qs b" and "map_of (states b) q = Some s" and "category s' = category s"
  shows "bank_of qs (b\<lparr>states := AList.update q s' (states b)\<rparr>)"
proof -
  have "(q, s) \<in> set (states b)"
    using assms(2) by (rule map_of_SomeD)
  then have "map_option qcategory (map_of (questions b) q) = Some (category s')"
    using assms(1,3) by (auto simp: bank_of_def)
  then show ?thesis
    using assms(1,2) by (auto simp: bank_of_def keys_update_present dest!: in_set_updateD)
qed

lemma bank_of_category_stats: "bank_of qs (b\<lparr>category_stats := cs\<rparr>) = bank_of qs b"
  by (simp add: bank_of_def)

lemma bank_of_update:
  assumes "bank_of qs b"
  shows "bank_of qs (fst (update_question_state b now q c t))"
proof (cases "map_of (states b) q")
  case None
  then show ?thesis
    using assms by (simp add: update_question_state_def)
next
  case (Some s)
  let ?s1 = "basic_update s now c t"
  let ?b1 = "b\<lparr>states := AList.update q ?s1 (states b)\<rparr>"
  have b1: "bank_of qs ?b1"
    using assms Some by (rule bank_of_states_update) (simp add: basic_update_def)
  have s1: "map_of (states ?b1) q = Some ?s1"
    by (simp add: map_of_update_same)
  have b2: "bank_of qs (?b1\<lparr>states := AList.update q s2 (states ?b1)\<rparr>)"
    if "category s2 = category ?s1" for s2
    using b1 s1 that by (rule bank_of_states_update)
  have c1: "category (on_correct ?s1) = category ?s1" "category (on_wrong ?s1) = category ?s1"
    by (simp_all add: on_correct_def on_wrong_def Let_def)
  show ?thesis
    using assms Some b1 b2 [OF c1(1)] b2 [OF c1(2)]
    by (auto simp: update_question_state_def Let_def bank_of_def split: option.splits)
qed

lemma bank_of_practised: "bank_of sample_questions practised_bank"
  unfolding practised_bank_def by (simp add: bank_of_update bank_of_fresh)

lemma sample_lib_codec:
  "\<forall>d. fromisoformat sample_lib (isoformat sample_lib d) = Some d"
  "\<forall>d. isoformat sample_lib d \<noteq> []"
  by (auto simp: sample_lib_def)

text \<open>
  Claim C1, amended.  With a library whose \<open>fromisoformat\<close> reads back what \<open>isoformat\<close>
  writes, and writes no empty string, and for a bank that satisfies the invariant of the
  banks built from \<open>qs\<close>: \<open>import_state\<close> of \<open>qs\<close> and of the snapshot that \<open>export_state\<close>
  returns raises nothing and returns the bank with the same questions, the same category
  statistics, the same ids in the same order and, under each id, the state of the original
  in every field (difficulty, times_shown, times_correct, consecutive_wrong,
  last_5_attempts, mastery_level, category, last_seen) except the response times, which
  are empty: the snapshot does not hold them.
\<close>

theorem export_import_round_trip:
  assumes "\<forall>d. fromisoformat lib (isoformat lib d) = Some d" and "\<forall>d. isoformat lib d \<noteq> []"
    and "bank_of qs b"
  shows "import_state lib qs (export_state lib b now) =
    Inr (b\<lparr>states := map (\<lambda>(i, s). (i, s\<lparr>time_to_answer := []\<rparr>)) (states b)\<rparr>)"
proof -
  let ?fresh = "QuestionBank qs"
  let ?T = "map (\<lambda>(i, s). (i, s\<lparr>time_to_answer := []\<rparr>)) (states b)"
  have q: "questions b = questions_dict qs"
    and k: "map fst (states b) = map fst (questions b)"
    and c: "\<forall>(i, s)\<in>set (states b). map_option qcategory (map_of (questions b) i) = Some (category s)"
    using assms(3) unfolding bank_of_def by blast+
  have fq: "questions ?fresh = questions b"
    and fs: "states ?fresh = map (\<lambda>(i, qu). (i, QuestionState (qcategory qu))) (questions b)"
    by (simp_all add: QuestionBank_def Let_def q)
  have fk: "map fst (states ?fresh) = map fst (states b)"
    by (simp add: fs k comp_def case_prod_unfold)
  have dist: "distinct (map fst (states b))"
    by (simp add: k q distinct_questions_dict)
  obtain al where al: "import_entries lib ?fresh (map (export_entry lib) (states b)) = Inr (?fresh\<lparr>states := al\<rparr>)"
    and alk: "map fst al = map fst (states ?fresh)"
    and alv: "\<forall>i. map_of al i =
         (case map_of (states b) i of
            None \<Rightarrow> map_of (states ?fresh) i
          | Some s \<Rightarrow> map_option (\<lambda>s0. restore_state s0 s) (map_of (states ?fresh) i))"
    using import_entries_export [OF assms(1,2) dist, of ?fresh] fk by auto
  have "al = ?T"
  proof (rule alist_eqI)
    show "map fst al = map fst ?T"
      by (simp add: alk fk comp_def case_prod_unfold)
    show "distinct (map fst al)"
      by (simp add: alk fk dist)
    show "\<forall>j\<in>set (map fst al). map_of al j = map_of ?T j"
    proof
      fix j assume "j \<in> set (map fst al)"
      then have "j \<in> set (map fst (states b))"
        by (simp add: alk fk)
      then obtain s where s: "map_of (states b) j = Some s"
        by (metis map_of_eq_None_iff not_None_eq set_map)
      then have "(j, s) \<in> set (states b)"
        by (rule map_of_SomeD)
      then have "map_option qcategory (map_of (questions b) j) = Some (category s)"
        using c by auto
      then have "map_of (states ?fresh) j = Some (QuestionState (category s))"
        by (auto simp: fs map_of_map)
      then have "map_of al j = Some (restore_state (QuestionState (category s)) s)"
        using alv [rule_format, of j] s by simp
      moreover have "map_of ?T j = Some (s\<lparr>time_to_answer := []\<rparr>)"
        using s by (simp add: map_of_map)
      ultimately show "map_of al j = map_of ?T j"
        by (simp add: restore_fresh)
    qed
  qed
  then have "import_entries lib ?fresh (map (export_entry lib) (states b)) = Inr (?fresh\<lparr>states := ?T\<rparr>)"
    using al by simp
  moreover have "?fresh\<lparr>states := ?T, category_stats := category_stats b\<rparr> = b\<lparr>states := ?T\<rparr>"
    using fq by (cases b) (simp add: QuestionBank_def Let_def)
  ultimately show ?thesis
    by (simp add: import_state_def export_state_def bind_err_def Let_def)
qed

theorem export_import_round_trip_witness:
  "bank_of sample_questions practised_bank \<and>
   fromisoformat sample_lib (isoformat sample_lib 0) = Some 0 \<and>
   isoformat sample_lib 0 = ''T'' \<and>
   import_state sample_lib sample_questions (export_state sample_lib practised_bank 9) =
     Inr (practised_bank\<lparr>states :=
            map (\<lambda>(i, s). (i, s\<lparr>time_to_answer := []\<rparr>)) (states practised_bank)\<rparr>)"
proof -
  have "isoformat sample_lib 0 = ''T''"
    by (simp add: sample_lib_def)
  moreover have "fromisoformat sample_lib (isoformat sample_lib 0) = Some 0"
    using sample_lib_codec(1) by blast
  ultimately show ?thesis
    using bank_of_practised
      export_import_round_trip [OF sample_lib_codec bank_of_practised, of 9]
    by blast
qed

text \<open>
  The claim as written fails on the response times: question 1 of the practised bank holds
  five of them, and none after export and import.
\<close>

theorem export_import_drops_response_times:
  "map_option time_to_answer (map_of (states practised_bank) 1) = Some [2, 2, 2, 2, 2] \<and>
   \<not> isl (import_state sample_lib sample_questions (export_state sample_lib practised_bank 9)) \<and>
   map_option time_to_answer
     (map_of (states (projr (import_state sample_lib sample_questions
        (export_state sample_lib practised_bank 9)))) 1) = Some []"
  by (simp add: practised_states export_state_def export_entry_def import_state_def
      import_entry_def assign_field_def int_of_key_def bind_err_def getitem_def
      sample_lib_def sample_defs Let_def)

end
